theory Spec2Isabelle
  imports Main "HOL-Library.AList"
begin

section \<open>Strings and the library functions the module calls\<close>

text \<open>
  The module is Python 2: a \<open>str\<close> is a byte string, modelled as \<open>string\<close>.  A Python
  value that is either \<open>None\<close> or a string is a \<open>string option\<close>; it is truthy when it
  is a non-empty string.

  The functions of \<open>hmac\<close>, \<open>hashlib\<close>, \<open>random\<close> and the datastore's key decoding are
  not part of the module.  They are parameters of the model, collected in the record
  \<open>lib\<close>: the raw digests (\<open>hexdigest\<close> is written out below), the decoding of an
  encoded datastore key, and \<open>StringProperty.MAX_LENGTH\<close>, the number of characters
  that the datastore library accepts in a \<open>StringProperty\<close> (500 or 1500, by its
  version).  The draws of \<open>random.choice\<close> are a separate parameter.
\<close>

definition truthy :: "string option \<Rightarrow> bool" where
  "truthy v = (case v of None \<Rightarrow> False | Some s \<Rightarrow> s \<noteq> [])"

definition split0 :: "string \<Rightarrow> string" where
  \<comment> \<open>\<open>h.split("|")[0]\<close>: the text before the first bar, all of \<open>h\<close> when it has none\<close>
  "split0 h = takeWhile (\<lambda>c. c \<noteq> CHR ''|'') h"

definition hexdigit :: "nat \<Rightarrow> char" where
  "hexdigit d = ''0123456789abcdef'' ! (d mod 16)"

definition hexdigest :: "string \<Rightarrow> string" where
  \<comment> \<open>two lower-case hexadecimal digits for every byte of the digest\<close>
  "hexdigest bs =
     concat (map (\<lambda>c. [hexdigit (of_char c div 16), hexdigit (of_char c mod 16)]) bs)"

datatype kind = KCredential | KPost | KComment | KLikez

type_synonym key = "kind \<times> nat"

record lib =
  hmac_new :: "string \<Rightarrow> string \<Rightarrow> string"
  sha256 :: "string \<Rightarrow> string"
  key_decode :: "string \<Rightarrow> key option"
  string_max :: nat

definition SECRET :: string where
  "SECRET = ''LYtOJ9kweSza7sBszlB79z5WEELkEY8O3t6Ll5F4nmj7bWzNLR''"


section \<open>Secure cookie values and password hashes\<close>

definition hash_str :: "lib \<Rightarrow> string \<Rightarrow> string" where
  "hash_str L s = hexdigest (hmac_new L SECRET s)"

definition make_secure_val :: "lib \<Rightarrow> string \<Rightarrow> string" where
  "make_secure_val L s = s @ ''|'' @ hash_str L s"

definition check_secure_val :: "lib \<Rightarrow> string option \<Rightarrow> string option" where
  "check_secure_val L h =
     (case h of
        None \<Rightarrow> None
      | Some t \<Rightarrow>
          if t \<noteq> [] then
            (let val = split0 t in
             if t = make_secure_val L val then Some val else None)
          else None)"




section \<open>Input validation\<close>














section \<open>Requests and cookies\<close>

record request =
  params :: "(string \<times> string) list"
  cookies :: "(string \<times> string) list"

definition get_param :: "request \<Rightarrow> string \<Rightarrow> string" where
  \<comment> \<open>\<open>self.request.get(name)\<close>: the empty string when the field is missing\<close>
  "get_param r name = (case map_of (params r) name of None \<Rightarrow> [] | Some v \<Rightarrow> v)"

definition read_secure_cookie :: "lib \<Rightarrow> request \<Rightarrow> string \<Rightarrow> string option" where
  \<comment> \<open>\<open>cookie_val and check_secure_val(cookie_val)\<close>\<close>
  "read_secure_cookie L r name =
     (let cookie_val = map_of (cookies r) name in
      if truthy cookie_val then check_secure_val L cookie_val else cookie_val)"

definition identify :: "lib \<Rightarrow> request \<Rightarrow> string option" where
  "identify L r =
     (if truthy (read_secure_cookie L r ''user'')
      then map_option split0 (read_secure_cookie L r ''user'')
      else None)"

section \<open>The datastore\<close>

text \<open>
  The App Engine datastore is modelled as a list of entities by key, with the next
  identifier it hands out and a logical clock that stamps \<open>created\<close> (\<open>auto_now_add\<close>)
  and \<open>last_modified\<close> (\<open>auto_now\<close>) and advances with every \<open>put\<close>.  Of the property
  options, \<open>required = True\<close> is modelled: an empty or missing value raises
  \<open>BadValueError\<close>.  So does a value of a \<open>StringProperty\<close> that has a line feed in it
  (no property of the module is declared \<open>multiline\<close>) or more than \<open>MAX_LENGTH\<close>
  characters; a \<open>TextProperty\<close> has neither limit.  A query ordered by
  \<open>created\<close> lists entities of equal \<open>created\<close> in an order the datastore does not
  promise; the model takes the later-stored first.
\<close>

datatype error = AttributeError | BadValueError | BadKeyError

record credential =
  username :: string
  email :: string
  hashed_password :: string

record post =
  post_subject :: string
  post_content :: string
  post_created :: nat
  post_last_modified :: nat
  post_creator :: "string option"
  post_name :: "string option"

record comment =
  comment_content :: string
  comment_created :: nat
  comment_last_modified :: nat
  comment_creator :: string
  comment_name :: "string option"
  comment_post_id :: string
  comment_mod :: "bool option"

record likez =
  does_like :: bool
  likez_created :: nat
  likez_last_modified :: nat
  likez_creator :: string
  likez_name :: "string option"
  likez_post_id :: string

datatype entity = Credential credential | Post post | Comment comment | Likez likez

record datastore =
  entities :: "(key \<times> entity) list"
  next_id :: nat
  clock :: nat

fun kind_of :: "entity \<Rightarrow> kind" where
  "kind_of (Credential c) = KCredential"
| "kind_of (Post p) = KPost"
| "kind_of (Comment c) = KComment"
| "kind_of (Likez l) = KLikez"

definition db_get :: "datastore \<Rightarrow> key \<Rightarrow> entity option" where
  \<comment> \<open>\<open>db.get(key)\<close>: \<open>None\<close> when no entity has the key\<close>
  "db_get s k = map_of (entities s) k"

definition db_delete :: "key \<Rightarrow> datastore \<Rightarrow> datastore" where
  \<comment> \<open>\<open>db.delete(key)\<close>: deleting a key that has no entity changes nothing\<close>
  "db_delete k s = s\<lparr>entities := AList.delete k (entities s)\<rparr>"

fun stamp_created :: "nat \<Rightarrow> entity \<Rightarrow> entity" where
  "stamp_created t (Credential c) = Credential c"
| "stamp_created t (Post p) = Post (p\<lparr>post_created := t\<rparr>)"
| "stamp_created t (Comment c) = Comment (c\<lparr>comment_created := t\<rparr>)"
| "stamp_created t (Likez l) = Likez (l\<lparr>likez_created := t\<rparr>)"

fun stamp_modified :: "nat \<Rightarrow> entity \<Rightarrow> entity" where
  "stamp_modified t (Credential c) = Credential c"
| "stamp_modified t (Post p) = Post (p\<lparr>post_last_modified := t\<rparr>)"
| "stamp_modified t (Comment c) = Comment (c\<lparr>comment_last_modified := t\<rparr>)"
| "stamp_modified t (Likez l) = Likez (l\<lparr>likez_last_modified := t\<rparr>)"

definition fresh_id :: "datastore \<Rightarrow> nat" where
  \<comment> \<open>an identifier that no entity of the store has, and that was never handed out\<close>
  "fresh_id s = max (next_id s) (Suc (fold max (map (\<lambda>(k, e). snd k) (entities s)) 0))"

definition put_new :: "entity \<Rightarrow> datastore \<Rightarrow> key \<times> datastore" where
  \<comment> \<open>\<open>put()\<close> of an entity that has no key yet\<close>
  "put_new e s =
     (let k = (kind_of e, fresh_id s);
          e' = stamp_modified (clock s) (stamp_created (clock s) e)
      in (k, s\<lparr>entities := entities s @ [(k, e')],
                next_id := Suc (fresh_id s), clock := Suc (clock s)\<rparr>))"

definition put :: "key \<Rightarrow> entity \<Rightarrow> datastore \<Rightarrow> datastore" where
  \<comment> \<open>\<open>put()\<close> of an entity that was read from the store under key \<open>k\<close>\<close>
  "put k e s =
     s\<lparr>entities := AList.update k (stamp_modified (clock s) e) (entities s),
       clock := Suc (clock s)\<rparr>"


definition likez_query :: "datastore \<Rightarrow> (key \<times> likez) list" where
  \<comment> \<open>\<open>SELECT * FROM Likez ORDER BY created DESC\<close>\<close>
  "likez_query s =
     rev (sort_key (\<lambda>(k, l). likez_created l)
       (List.map_filter (\<lambda>(k, e). case e of Likez l \<Rightarrow> Some (k, l) | _ \<Rightarrow> None) (entities s)))"

definition string_property_ok :: "lib \<Rightarrow> string \<Rightarrow> bool" where
  \<comment> \<open>what \<open>db.StringProperty\<close> accepts of a string: no line feed, at most \<open>MAX_LENGTH\<close>
      characters\<close>
  "string_property_ok L v = (CHR 0x0A \<notin> set v \<and> length v \<le> string_max L)"

definition optional_string_ok :: "lib \<Rightarrow> string option \<Rightarrow> bool" where
  \<comment> \<open>a \<open>StringProperty\<close> that is not required also accepts \<open>None\<close>\<close>
  "optional_string_ok L v = (case v of None \<Rightarrow> True | Some w \<Rightarrow> string_property_ok L w)"


definition new_likez :: "lib \<Rightarrow> string option \<Rightarrow> string option \<Rightarrow> string \<Rightarrow> bool \<Rightarrow> error + likez" where
  \<comment> \<open>the constructor \<open>Likez(creator=, name=, post_id=, does_like=)\<close>\<close>
  "new_likez L creator name post_id dl =
     (case creator of
        None \<Rightarrow> Inl BadValueError
      | Some c \<Rightarrow>
          if c = [] \<or> \<not> string_property_ok L c \<or> \<not> optional_string_ok L name
             \<or> post_id = [] \<or> \<not> string_property_ok L post_id
          then Inl BadValueError
          else Inr \<lparr>does_like = dl, likez_created = 0, likez_last_modified = 0,
                    likez_creator = c, likez_name = name, likez_post_id = post_id\<rparr>)"

definition new_comment :: "lib \<Rightarrow> string \<Rightarrow> string option \<Rightarrow> string option \<Rightarrow> string \<Rightarrow> error + comment" where
  \<comment> \<open>the constructor \<open>Comment(content=, name=, creator=, post_id=)\<close>; \<open>mod\<close> is left unset\<close>
  "new_comment L content name creator post_id =
     (case creator of
        None \<Rightarrow> Inl BadValueError
      | Some c \<Rightarrow>
          if content = [] \<or> c = [] \<or> \<not> string_property_ok L c \<or> \<not> optional_string_ok L name
             \<or> post_id = [] \<or> \<not> string_property_ok L post_id
          then Inl BadValueError
          else Inr \<lparr>comment_content = content, comment_created = 0, comment_last_modified = 0,
                    comment_creator = c, comment_name = name, comment_post_id = post_id,
                    comment_mod = None\<rparr>)"

fun set_mod :: "bool \<Rightarrow> entity \<Rightarrow> entity" where
  \<comment> \<open>\<open>e.mod = b\<close>: a property of Comment only; on another entity the assignment makes a
      plain attribute that \<open>put\<close> does not store\<close>
  "set_mod b (Comment c) = Comment (c\<lparr>comment_mod := Some b\<rparr>)"
| "set_mod b e = e"

fun set_content :: "string \<Rightarrow> entity \<Rightarrow> error + entity" where
  \<comment> \<open>\<open>e.content = v\<close>: a required property of Comment and of Post\<close>
  "set_content v (Comment c) =
     (if v = [] then Inl BadValueError else Inr (Comment (c\<lparr>comment_content := v\<rparr>)))"
| "set_content v (Post p) =
     (if v = [] then Inl BadValueError else Inr (Post (p\<lparr>post_content := v\<rparr>)))"
| "set_content v e = Inr e"

section \<open>Signup\<close>








section \<open>The page of one post\<close>

datatype page = NotFound | Permalink nat string "string option" "string option" | PageError error

definition int_str :: "string \<Rightarrow> nat" where
  \<comment> \<open>\<open>int(post_id)\<close>; the route \<open>/blog/([0-9]+)\<close> passes decimal digits only\<close>
  "int_str ds = fold (\<lambda>c n. 10 * n + (of_char c - 48)) ds 0"

definition get_post :: "datastore \<Rightarrow> string \<Rightarrow> error + entity option" where
  \<comment> \<open>\<open>key = db.Key.from_path("Post", int(post_id)); post = db.get(key)\<close>: the key of
      id 0 is incomplete and \<open>db.get\<close> raises; otherwise the post, or \<open>None\<close>\<close>
  "get_post s post_id =
     (if int_str post_id = 0 then Inl BadKeyError
      else Inr (db_get s (KPost, int_str post_id)))"

definition like_count :: "string \<Rightarrow> datastore \<Rightarrow> nat" where
  \<comment> \<open>the first loop of \<open>PostPage.get\<close>\<close>
  "like_count post_id s =
     fold (\<lambda>(k, likey) count.
             if does_like likey \<and> likez_post_id likey = post_id then count + 1 else count)
       (likez_query s) 0"

definition like_display :: "string \<Rightarrow> string option \<Rightarrow> datastore \<Rightarrow> string" where
  \<comment> \<open>the second loop of \<open>PostPage.get\<close>\<close>
  "like_display post_id current_user s =
     fold (\<lambda>(k, li) display.
             if likez_post_id li = post_id \<and> Some (likez_creator li) = current_user \<and> does_like li
             then ''unlike'' else display)
       (likez_query s) ''like''"

definition PostPage_get :: "lib \<Rightarrow> request \<Rightarrow> string \<Rightarrow> datastore \<Rightarrow> page" where
  "PostPage_get L r post_id s =
     (case get_post s post_id of
        Inl e \<Rightarrow> PageError e
      | Inr post \<Rightarrow>
          (let uname = identify L r;
               current_user =
                 (if truthy (read_secure_cookie L r ''user_id'')
                  then map_option split0 (map_of (cookies r) ''user_id'')
                  else None)
           in if post = None then NotFound
              else Permalink (like_count post_id s) (like_display post_id current_user s)
                     current_user uname))"

text \<open>
  \<open>PostPage.post\<close> is a sequence of independent \<open>if\<close> blocks over the request's fields.
  Each block is a step on the handler's local state: the datastore and the three flags.
  A step that raises leaves that state as it is; the writes of earlier steps stay in the
  datastore, which has no transaction around the handler.  Before the first step the
  handler reads the post of the URL; it never uses the post, but the read raises for the
  id 0.  The calls of \<open>sleep\<close> after the writes are left out.
\<close>

record hstate =
  db :: datastore
  have_error :: bool
  delete_post :: bool
  edit_post :: bool

datatype outcome = Redirect string | ServerError error

definition current_ids :: "lib \<Rightarrow> request \<Rightarrow> error + (string option \<times> string option)" where
  \<comment> \<open>\<open>current_user\<close> and \<open>current_name\<close>; \<open>cookies.get("user")\<close> is \<open>None\<close> when the
      request has no such cookie, and \<open>None.split\<close> raises\<close>
  "current_ids L r =
     (if truthy (read_secure_cookie L r ''user_id'')
      then (case map_of (cookies r) ''user'' of
              None \<Rightarrow> Inl AttributeError
            | Some u \<Rightarrow> Inr (map_option split0 (map_of (cookies r) ''user_id''), Some (split0 u)))
      else Inr (None, None))"

definition like_step ::
  "lib \<Rightarrow> request \<Rightarrow> string \<Rightarrow> string option \<Rightarrow> string option \<Rightarrow> string option \<Rightarrow> hstate \<Rightarrow> error + hstate" where
  "like_step L r post_id uname current_user current_name st =
     (if get_param r ''like1'' \<noteq> [] \<and> truthy uname
      then (case new_likez L current_user current_name post_id True of
              Inl e \<Rightarrow> Inl e
            | Inr l \<Rightarrow> Inr (st\<lparr>db := snd (put_new (Likez l) (db st))\<rparr>))
      else if get_param r ''like1'' \<noteq> [] \<and> \<not> truthy uname
      then Inr (st\<lparr>have_error := True\<rparr>)
      else Inr st)"

definition unlike_step :: "request \<Rightarrow> string option \<Rightarrow> hstate \<Rightarrow> error + hstate" where
  "unlike_step r current_user st =
     (if get_param r ''unlike'' \<noteq> []
      then (let likez = likez_query (db st);
                delkey = fold (\<lambda>(k, likey) d.
                                 if Some (likez_creator likey) = current_user \<and> does_like likey
                                 then Some k else d)
                           likez None
            in case delkey of
                 Some k \<Rightarrow> Inr (st\<lparr>db := db_delete k (db st)\<rparr>)
               | None \<Rightarrow> Inr st)
      else Inr st)"

definition edit_c_step :: "lib \<Rightarrow> request \<Rightarrow> hstate \<Rightarrow> error + hstate" where
  "edit_c_step L r st =
     (if get_param r ''edit_c'' \<noteq> []
      then (case key_decode L (get_param r ''edit_c'') of
              None \<Rightarrow> Inl BadKeyError
            | Some ckey \<Rightarrow>
                (case db_get (db st) ckey of
                   None \<Rightarrow> Inl AttributeError
                 | Some e \<Rightarrow> Inr (st\<lparr>db := put ckey (set_mod True e) (db st)\<rparr>)))
      else Inr st)"

definition update_c_step :: "lib \<Rightarrow> request \<Rightarrow> hstate \<Rightarrow> error + hstate" where
  "update_c_step L r st =
     (if get_param r ''update_c'' \<noteq> []
      then (let ucom = get_param r ''updated_comment'' in
            case key_decode L (get_param r ''update_c'') of
              None \<Rightarrow> Inl BadKeyError
            | Some ukey \<Rightarrow>
                (case db_get (db st) ukey of
                   None \<Rightarrow> Inl AttributeError
                 | Some u \<Rightarrow>
                     (case set_content ucom u of
                        Inl e \<Rightarrow> Inl e
                      | Inr u' \<Rightarrow> Inr (st\<lparr>db := put ukey (set_mod False u') (db st)\<rparr>))))
      else Inr st)"

definition cancel_u_c_step :: "lib \<Rightarrow> request \<Rightarrow> hstate \<Rightarrow> error + hstate" where
  "cancel_u_c_step L r st =
     (if get_param r ''cancel_u_c'' \<noteq> []
      then (case key_decode L (get_param r ''cancel_u_c'') of
              None \<Rightarrow> Inl BadKeyError
            | Some cankey \<Rightarrow>
                (case db_get (db st) cankey of
                   None \<Rightarrow> Inl AttributeError
                 | Some can \<Rightarrow> Inr (st\<lparr>db := put cankey (set_mod False can) (db st)\<rparr>)))
      else Inr st)"

definition delete_c_step :: "lib \<Rightarrow> request \<Rightarrow> hstate \<Rightarrow> error + hstate" where
  "delete_c_step L r st =
     (if get_param r ''delete_c'' \<noteq> []
      then (case key_decode L (get_param r ''delete_c'') of
              None \<Rightarrow> Inl BadKeyError
            | Some dd_key \<Rightarrow> Inr (st\<lparr>db := db_delete dd_key (db st)\<rparr>))
      else Inr st)"

definition delete_p_step :: "lib \<Rightarrow> request \<Rightarrow> hstate \<Rightarrow> error + hstate" where
  "delete_p_step L r st =
     (if get_param r ''delete_p'' \<noteq> []
      then (case key_decode L (get_param r ''delete_p'') of
              None \<Rightarrow> Inl BadKeyError
            | Some dpk \<Rightarrow> Inr (st\<lparr>db := db_delete dpk (db st), delete_post := True\<rparr>))
      else Inr st)"

definition edit_p_step :: "request \<Rightarrow> hstate \<Rightarrow> error + hstate" where
  "edit_p_step r st =
     (if get_param r ''edit_p'' \<noteq> [] then Inr (st\<lparr>edit_post := True\<rparr>) else Inr st)"

definition comment_step ::
  "lib \<Rightarrow> request \<Rightarrow> string \<Rightarrow> string option \<Rightarrow> string option \<Rightarrow> string option \<Rightarrow> hstate \<Rightarrow> error + hstate" where
  "comment_step L r post_id uname current_user current_name st =
     (let comment = get_param r ''comment'' in
      if comment \<noteq> [] \<and> truthy uname
      then (case new_comment L comment current_name current_user post_id of
              Inl e \<Rightarrow> Inl e
            | Inr c \<Rightarrow> Inr (st\<lparr>db := snd (put_new (Comment c) (db st))\<rparr>))
      else Inr st)"

fun run_steps :: "(hstate \<Rightarrow> error + hstate) list \<Rightarrow> hstate \<Rightarrow> hstate \<times> error option" where
  "run_steps [] st = (st, None)"
| "run_steps (f # fs) st =
     (case f st of Inl e \<Rightarrow> (st, Some e) | Inr st' \<Rightarrow> run_steps fs st')"

definition terminal_redirect :: "string \<Rightarrow> hstate \<Rightarrow> string" where
  "terminal_redirect post_id st =
     (if delete_post st then ''/blog''
      else if edit_post st then ''/blog/edit/'' @ post_id
      else if have_error st then ''/blog/login''
      else ''/blog/'' @ post_id)"

definition PostPage_post :: "lib \<Rightarrow> request \<Rightarrow> string \<Rightarrow> datastore \<Rightarrow> datastore \<times> outcome" where
  "PostPage_post L r post_id s =
     (let uname = identify L r in
      case get_post s post_id of
        Inl e \<Rightarrow> (s, ServerError e)
      | Inr post \<Rightarrow>
          (case current_ids L r of
             Inl e \<Rightarrow> (s, ServerError e)
           | Inr (current_user, current_name) \<Rightarrow>
               (case run_steps
                       [like_step L r post_id uname current_user current_name,
                        unlike_step r current_user,
                        edit_c_step L r,
                        update_c_step L r,
                        cancel_u_c_step L r,
                        delete_c_step L r,
                        delete_p_step L r,
                        edit_p_step r,
                        comment_step L r post_id uname current_user current_name]
                       \<lparr>db = s, have_error = False, delete_post = False, edit_post = False\<rparr> of
                  (st, Some e) \<Rightarrow> (db st, ServerError e)
                | (st, None) \<Rightarrow> (db st, Redirect (terminal_redirect post_id st)))))"

section \<open>Editing a post\<close>

definition EditPage_post :: "lib \<Rightarrow> request \<Rightarrow> string \<Rightarrow> datastore \<Rightarrow> datastore \<times> outcome" where
  "EditPage_post L r post_id s =
     (case get_post s post_id of
        Inl e \<Rightarrow> (s, ServerError e)
      | Inr post \<Rightarrow>
          (let key = (KPost, int_str post_id);
               update_p_text = get_param r ''post_update''
           in if update_p_text \<noteq> []
              then (case post of
                      None \<Rightarrow> (s, ServerError AttributeError)
                    | Some p \<Rightarrow>
                        (case set_content update_p_text p of
                           Inl e \<Rightarrow> (s, ServerError e)
                         | Inr p' \<Rightarrow> (put key p' s, Redirect (''/blog/'' @ post_id))))
              else (s, Redirect (''/blog/'' @ post_id))))"

section \<open>Vocabulary of the claims\<close>

text \<open>
  The definitions of this section are not part of the module.  They name what the claims
  talk about: the conditions of a signup, a request that submits a single field, a
  request with both cookies verified, the effect of each action of \<open>PostPage.post\<close> on
  the store, and the stores and requests of the examples.
\<close>






definition authenticated :: "lib \<Rightarrow> request \<Rightarrow> bool" where
  "authenticated L r =
     (truthy (read_secure_cookie L r ''user'') \<and> truthy (read_secure_cookie L r ''user_id''))"

text \<open>
  \<open>session_storable\<close>: the id and the name that \<open>PostPage.post\<close> reads from the cookies are
  values that a \<open>StringProperty\<close> accepts, as are the usernames that \<open>Signup.post\<close> stores
  and the ids that the datastore hands out.
\<close>

definition session_storable :: "lib \<Rightarrow> request \<Rightarrow> bool" where
  "session_storable L r =
     (case current_ids L r of
        Inl e \<Rightarrow> False
      | Inr (current_user, current_name) \<Rightarrow>
          optional_string_ok L current_user \<and> optional_string_ok L current_name)"

text \<open>
  \<open>only_field f r\<close>: of the nine fields that \<open>PostPage.post\<close> dispatches on, the request
  submits \<open>f\<close> and no other.
\<close>

definition only_field :: "string \<Rightarrow> request \<Rightarrow> bool" where
  "only_field f r =
     (get_param r f \<noteq> [] \<and>
      list_all (\<lambda>g. g = f \<or> get_param r g = [])
        [''like1'', ''unlike'', ''edit_c'', ''update_c'', ''cancel_u_c'', ''delete_c'',
         ''delete_p'', ''edit_p'', ''comment''])"

text \<open>
  The Likez that a like request of a signed-in user constructs, and the store after \<open>n\<close>
  such requests in a row.
\<close>

definition like_of :: "request \<Rightarrow> string \<Rightarrow> likez" where
  "like_of r post_id =
     \<lparr>does_like = True, likez_created = 0, likez_last_modified = 0,
      likez_creator = split0 (the (map_of (cookies r) ''user_id'')),
      likez_name = Some (split0 (the (map_of (cookies r) ''user''))),
      likez_post_id = post_id\<rparr>"

definition likez_of :: "(key \<times> entity) list \<Rightarrow> (key \<times> likez) list" where
  "likez_of es = List.map_filter (\<lambda>(k, e). case e of Likez l \<Rightarrow> Some (k, l) | _ \<Rightarrow> None) es"

definition active_likes :: "string \<Rightarrow> string \<Rightarrow> datastore \<Rightarrow> nat" where
  "active_likes creator post_id s =
     length (filter (\<lambda>(k, l). does_like l \<and> likez_creator l = creator \<and> likez_post_id l = post_id)
       (likez_of (entities s)))"

definition likes :: "lib \<Rightarrow> request \<Rightarrow> string \<Rightarrow> nat \<Rightarrow> datastore \<Rightarrow> datastore" where
  "likes L r post_id n s = ((\<lambda>s. fst (PostPage_post L r post_id s)) ^^ n) s"

text \<open>
  The handler's state before its first step, the response after a single step, the steps
  in the order of the source, and the redirect as a function of the request alone.
\<close>

definition init :: "datastore \<Rightarrow> hstate" where
  "init s = \<lparr>db = s, have_error = False, delete_post = False, edit_post = False\<rparr>"

definition finish :: "string \<Rightarrow> error + hstate \<Rightarrow> datastore \<Rightarrow> datastore \<times> outcome" where
  "finish post_id res s =
     (case res of
        Inl e \<Rightarrow> (s, ServerError e)
      | Inr st \<Rightarrow> (db st, Redirect (terminal_redirect post_id st)))"














text \<open>
  Examples: the two cookies that \<open>Signup.post\<close> and \<open>Login.post\<close> set for a user, a
  key decoding given by a table, a library with a given \<open>MAX_LENGTH\<close>, and three small
  stores.
\<close>

definition session :: "lib \<Rightarrow> string \<Rightarrow> string \<Rightarrow> (string \<times> string) list" where
  "session L name uid = [(''user'', make_secure_val L name), (''user_id'', make_secure_val L uid)]"

definition with_keys :: "lib \<Rightarrow> (string \<times> key) list \<Rightarrow> lib" where
  "with_keys L ks = L\<lparr>key_decode := map_of ks\<rparr>"

definition with_limit :: "lib \<Rightarrow> nat \<Rightarrow> lib" where
  "with_limit L n = L\<lparr>string_max := n\<rparr>"

definition alice_post :: post where
  "alice_post = \<lparr>post_subject = ''Hello'', post_content = ''World'', post_created = 0,
     post_last_modified = 0, post_creator = Some ''1'', post_name = Some ''alice''\<rparr>"

definition alice_comment :: comment where
  "alice_comment = \<lparr>comment_content = ''first'', comment_created = 1,
     comment_last_modified = 1, comment_creator = ''1'', comment_name = Some ''alice'',
     comment_post_id = ''5'', comment_mod = Some True\<rparr>"

definition blog_store :: datastore where
  "blog_store = \<lparr>entities = [((KPost, 5), Post alice_post), ((KComment, 6), Comment alice_comment)],
     next_id = 7, clock = 9\<rparr>"

definition blog_keys :: "(string \<times> key) list" where
  "blog_keys = [(''pk'', (KPost, 5)), (''ck'', (KComment, 6)), (''gone'', (KComment, 3))]"

definition bob_like :: "string \<Rightarrow> nat \<Rightarrow> likez" where
  "bob_like post_id t = \<lparr>does_like = True, likez_created = t, likez_last_modified = t,
     likez_creator = ''2'', likez_name = Some ''bob'', likez_post_id = post_id\<rparr>"

definition likes_store :: datastore where
  "likes_store = \<lparr>entities = [((KLikez, 1), Likez (bob_like ''4'' 1)),
                               ((KLikez, 2), Likez (bob_like ''5'' 2))],
     next_id = 3, clock = 3\<rparr>"



section \<open>Properties of the hashing functions\<close>




lemma split0_no_bar: "CHR ''|'' \<notin> set (split0 h)"
  unfolding split0_def by (induction h) auto

lemma split0_bar_tail: "split0 (s @ CHR ''|'' # t) = split0 s"
  unfolding split0_def by (induction s) auto

lemma make_secure_val_split0:
  "split0 (make_secure_val L s) = split0 s"
  unfolding make_secure_val_def by (simp add: split0_bar_tail)

lemma split0_id_iff: "split0 s = s \<longleftrightarrow> CHR ''|'' \<notin> set s"
  unfolding split0_def by (induction s) auto

lemma if_Some_eq: "((if P then Some a else None) = Some s) = (P \<and> s = a)"
  by auto


lemma check_secure_val_Some:
  "check_secure_val L (Some t) = (if t = make_secure_val L (split0 t) then Some (split0 t) else None)"
proof (cases "t = []")
  case True
  then show ?thesis by (simp add: check_secure_val_def make_secure_val_def)
next
  case False
  then show ?thesis unfolding check_secure_val_def Let_def by (simp (no_asm_simp))
qed

lemma check_secure_val_Some_iff:
  "check_secure_val L (Some t) = Some s \<longleftrightarrow> t = make_secure_val L (split0 t) \<and> s = split0 t"
  by (simp only: check_secure_val_Some if_Some_eq)








section \<open>Signup, likes, comments and the dispatch of a request\<close>



















lemma truthy_Some [simp]: "truthy (Some x) = (x \<noteq> [])"
  by (simp add: truthy_def)

lemma truthy_None [simp]: "truthy None = False"
  by (simp add: truthy_def)

lemma check_secure_val_cases:
  "check_secure_val L (Some t) = None \<or> check_secure_val L (Some t) = Some (split0 t)"
  unfolding check_secure_val_def Let_def by (simp (no_asm))

lemma read_secure_cookie_truthy:
  assumes "truthy (read_secure_cookie L r n)"
  obtains c where "map_of (cookies r) n = Some c" "c \<noteq> []"
    "read_secure_cookie L r n = Some (split0 c)" "split0 c \<noteq> []"
proof -
  from assms obtain c where c: "map_of (cookies r) n = Some c"
    by (cases "map_of (cookies r) n") (auto simp: read_secure_cookie_def Let_def)
  from assms c have ne: "c \<noteq> []"
    by (cases "c = []") (auto simp: read_secure_cookie_def Let_def)
  from c ne have rd: "read_secure_cookie L r n = check_secure_val L (Some c)"
    by (simp add: read_secure_cookie_def Let_def)
  with assms check_secure_val_cases [of L c]
  have "read_secure_cookie L r n = Some (split0 c)" "split0 c \<noteq> []"
    by auto
  with c ne show ?thesis by (rule that)
qed

lemma identify_no_cookie:
  "\<not> truthy (read_secure_cookie L r ''user'') \<Longrightarrow> identify L r = None"
  by (simp add: identify_def)

lemma current_ids_no_cookie:
  "\<not> truthy (read_secure_cookie L r ''user_id'') \<Longrightarrow> current_ids L r = Inr (None, None)"
  by (simp add: current_ids_def)

lemma split0_idem: "split0 (split0 c) = split0 c"
  unfolding split0_def by (rule takeWhile_idem)

lemma identify_cookie:
  assumes "truthy (read_secure_cookie L r ''user'')"
  shows "identify L r = Some (split0 (the (map_of (cookies r) ''user'')))"
    and "truthy (identify L r)"
proof -
  from assms obtain c where c: "map_of (cookies r) ''user'' = Some c"
    "read_secure_cookie L r ''user'' = Some (split0 c)" "split0 c \<noteq> []"
    by (rule read_secure_cookie_truthy)
  with assms show "identify L r = Some (split0 (the (map_of (cookies r) ''user'')))"
    by (simp add: identify_def split0_idem)
  with c show "truthy (identify L r)" by simp
qed

lemma current_ids_cookies:
  assumes "truthy (read_secure_cookie L r ''user'')" "truthy (read_secure_cookie L r ''user_id'')"
  shows "current_ids L r = Inr (Some (split0 (the (map_of (cookies r) ''user_id''))),
                                Some (split0 (the (map_of (cookies r) ''user''))))"
    and "split0 (the (map_of (cookies r) ''user_id'')) \<noteq> []"
proof -
  from assms(1) obtain c where c: "map_of (cookies r) ''user'' = Some c"
    by (rule read_secure_cookie_truthy)
  from assms(2) obtain d where d: "map_of (cookies r) ''user_id'' = Some d" "split0 d \<noteq> []"
    by (rule read_secure_cookie_truthy)
  from assms c d show "current_ids L r = Inr (Some (split0 (the (map_of (cookies r) ''user_id''))),
                                Some (split0 (the (map_of (cookies r) ''user''))))"
    by (simp add: current_ids_def)
  from d show "split0 (the (map_of (cookies r) ''user_id'')) \<noteq> []" by simp
qed

lemma unlike_step_skip: "get_param r ''unlike'' = [] \<Longrightarrow> unlike_step r cu st = Inr st"
  by (simp add: unlike_step_def)

lemma edit_c_step_skip: "get_param r ''edit_c'' = [] \<Longrightarrow> edit_c_step L r st = Inr st"
  by (simp add: edit_c_step_def)

lemma update_c_step_skip: "get_param r ''update_c'' = [] \<Longrightarrow> update_c_step L r st = Inr st"
  by (simp add: update_c_step_def)

lemma cancel_u_c_step_skip: "get_param r ''cancel_u_c'' = [] \<Longrightarrow> cancel_u_c_step L r st = Inr st"
  by (simp add: cancel_u_c_step_def)

lemma delete_c_step_skip: "get_param r ''delete_c'' = [] \<Longrightarrow> delete_c_step L r st = Inr st"
  by (simp add: delete_c_step_def)

lemma delete_p_step_skip: "get_param r ''delete_p'' = [] \<Longrightarrow> delete_p_step L r st = Inr st"
  by (simp add: delete_p_step_def)

lemma edit_p_step_skip: "get_param r ''edit_p'' = [] \<Longrightarrow> edit_p_step r st = Inr st"
  by (simp add: edit_p_step_def)

lemma comment_step_skip:
  "get_param r ''comment'' = [] \<or> \<not> truthy uname \<Longrightarrow> comment_step L r pid uname cu cn st = Inr st"
  by (auto simp add: comment_step_def)

lemma like_step_skip: "get_param r ''like1'' = [] \<Longrightarrow> like_step L r pid uname cu cn st = Inr st"
  by (simp add: like_step_def)

lemma get_post_nonzero:
  "int_str post_id \<noteq> 0 \<Longrightarrow> get_post s post_id = Inr (db_get s (KPost, int_str post_id))"
  by (simp add: get_post_def)

lemma int_str_Nil: "int_str [] = 0"
  by (simp add: int_str_def)

lemma PostPage_post_like:
  assumes "only_field ''like1'' r" "authenticated L r" "int_str post_id \<noteq> 0"
    "string_property_ok L post_id" "session_storable L r"
  shows "PostPage_post L r post_id s =
           (snd (put_new (Likez (like_of r post_id)) s), Redirect (''/blog/'' @ post_id))"
proof -
  from assms(2) have u: "truthy (read_secure_cookie L r ''user'')"
    and i: "truthy (read_secure_cookie L r ''user_id'')"
    by (simp_all add: authenticated_def)
  note ids = current_ids_cookies [OF u i]
  from assms(5) have ok: "string_property_ok L (split0 (the (map_of (cookies r) ''user_id'')))"
    "string_property_ok L (split0 (the (map_of (cookies r) ''user'')))"
    by (simp_all add: session_storable_def ids(1) optional_string_ok_def)
  from assms(3) have ne: "post_id \<noteq> []"
    using int_str_Nil by auto
  from assms(1) have f: "get_param r ''like1'' \<noteq> []" "get_param r ''unlike'' = []"
    "get_param r ''edit_c'' = []" "get_param r ''update_c'' = []"
    "get_param r ''cancel_u_c'' = []" "get_param r ''delete_c'' = []"
    "get_param r ''delete_p'' = []" "get_param r ''edit_p'' = []" "get_param r ''comment'' = []"
    by (simp_all add: only_field_def)
  have l: "like_step L r post_id (identify L r)
             (Some (split0 (the (map_of (cookies r) ''user_id''))))
             (Some (split0 (the (map_of (cookies r) ''user'')))) st
           = Inr (st\<lparr>db := snd (put_new (Likez (like_of r post_id)) (db st))\<rparr>)" for st
    using f(1) identify_cookie(2) [OF u] ids(2) ne ok assms(4)
    by (simp add: like_step_def new_likez_def like_of_def optional_string_ok_def)
  show ?thesis
    unfolding PostPage_post_def Let_def ids(1) get_post_nonzero [OF assms(3)]
    by (simp add: l f unlike_step_skip edit_c_step_skip update_c_step_skip cancel_u_c_step_skip
        delete_c_step_skip delete_p_step_skip edit_p_step_skip comment_step_skip
        terminal_redirect_def)
qed

lemma likez_query_alt:
  "likez_query s = rev (sort_key (\<lambda>(k, l). likez_created l) (likez_of (entities s)))"
  by (simp add: likez_query_def likez_of_def)

lemma likez_of_append: "likez_of (xs @ ys) = likez_of xs @ likez_of ys"
  by (simp add: likez_of_def List.map_filter_def)

lemma likez_of_single:
  "likez_of [(k, e)] = (case e of Likez l \<Rightarrow> [(k, l)] | _ \<Rightarrow> [])"
  by (cases e) (simp_all add: likez_of_def List.map_filter_def)

lemma fold_count:
  "fold (\<lambda>(k, l) c. if P l then c + 1 else c) xs (n::nat)
     = n + length (filter (\<lambda>(k, l). P l) xs)"
  by (induction xs arbitrary: n) (auto simp: split_beta)

lemma length_filter_likez_query:
  "length (filter Q (likez_query s)) = length (filter Q (likez_of (entities s)))"
  by (simp add: likez_query_alt rev_filter [symmetric] filter_sort)

lemma like_count_alt:
  "like_count post_id s
     = length (filter (\<lambda>(k, l). does_like l \<and> likez_post_id l = post_id) (likez_of (entities s)))"
  unfolding like_count_def
  by (simp add: fold_count length_filter_likez_query)

lemma entities_put_new:
  "entities (snd (put_new e s))
     = entities s @ [((kind_of e, fresh_id s), stamp_modified (clock s) (stamp_created (clock s) e))]"
  by (simp add: put_new_def Let_def)

lemma like_count_put_new_like:
  "like_count post_id (snd (put_new (Likez (like_of r post_id)) s)) = like_count post_id s + 1"
  by (simp add: like_count_alt entities_put_new likez_of_append likez_of_single like_of_def)

lemma active_likes_put_new_like:
  "active_likes (likez_creator (like_of r post_id)) post_id
       (snd (put_new (Likez (like_of r post_id)) s))
     = active_likes (likez_creator (like_of r post_id)) post_id s + 1"
  by (simp add: active_likes_def entities_put_new likez_of_append likez_of_single like_of_def)

lemma fold_display:
  "fold (\<lambda>(k, li) display. if Q li then ''unlike'' else display) xs d
     = (if \<exists>(k, li) \<in> set xs. Q li then ''unlike'' else d)"
  by (induction xs arbitrary: d) (auto simp: split_beta)

lemma set_likez_query: "set (likez_query s) = set (likez_of (entities s))"
  by (simp add: likez_query_alt)

lemma like_display_put_new_like:
  "like_display post_id (Some (likez_creator (like_of r post_id)))
       (snd (put_new (Likez (like_of r post_id)) s)) = ''unlike''"
  unfolding like_display_def
  by (simp add: fold_display set_likez_query entities_put_new likez_of_append likez_of_single
      like_of_def)

lemma like_display_mono:
  "like_display post_id cu s = ''unlike'' \<Longrightarrow>
   like_display post_id cu (snd (put_new e s)) = ''unlike''"
  unfolding like_display_def
  by (auto simp add: fold_display set_likez_query entities_put_new likez_of_append
        split: if_splits)

lemma fold_max_ge: "x \<in> set xs \<Longrightarrow> x \<le> fold max xs (a::nat)"
proof (induction xs arbitrary: a)
  case Nil
  then show ?case by simp
next
  case (Cons y ys)
  have le: "b \<le> fold max ys b" for b :: nat
    by (induction ys arbitrary: b) (auto intro: order_trans [OF max.cobounded2])
  from Cons show ?case
    by (auto intro: order_trans [OF max.cobounded1 le])
qed

lemma fresh_id_fresh: "(kd, fresh_id s) \<notin> fst ` set (entities s)"
proof
  assume "(kd, fresh_id s) \<in> fst ` set (entities s)"
  then have "fresh_id s \<in> set (map (\<lambda>(k, e). snd k) (entities s))"
    by (force simp: split_beta)
  then have "fresh_id s \<le> fold max (map (\<lambda>(k, e). snd k) (entities s)) 0"
    by (rule fold_max_ge)
  then show False by (simp add: fresh_id_def)
qed

lemma db_get_put_new:
  "db_get (snd (put_new e s)) k =
     (if k = (kind_of e, fresh_id s)
      then Some (stamp_modified (clock s) (stamp_created (clock s) e))
      else db_get s k)"
proof -
  have "map_of (entities s) (kind_of e, fresh_id s) = None"
    using fresh_id_fresh [of "kind_of e" s] by (simp add: map_of_eq_None_iff)
  then show ?thesis
    by (auto simp add: db_get_def entities_put_new map_add_def split: option.splits)
qed

lemma db_get_put_new_exists:
  "db_get s k \<noteq> None \<Longrightarrow> db_get (snd (put_new e s)) k \<noteq> None"
  by (auto simp: db_get_put_new)

lemma likes_Suc:
  assumes "only_field ''like1'' r" "authenticated L r" "int_str post_id \<noteq> 0"
    "string_property_ok L post_id" "session_storable L r"
  shows "likes L r post_id (Suc n) s
           = snd (put_new (Likez (like_of r post_id)) (likes L r post_id n s))"
  unfolding likes_def by (simp add: PostPage_post_like [OF assms])

lemma current_user_get:
  assumes "authenticated L r"
  shows "(if truthy (read_secure_cookie L r ''user_id'')
          then map_option split0 (map_of (cookies r) ''user_id'') else None)
         = Some (likez_creator (like_of r post_id))"
proof -
  from assms have i: "truthy (read_secure_cookie L r ''user_id'')"
    by (simp add: authenticated_def)
  then obtain d where "map_of (cookies r) ''user_id'' = Some d"
    by (rule read_secure_cookie_truthy)
  with i show ?thesis by (simp add: like_of_def)
qed

text \<open>
  Claim C5.  For a signed-in user, \<open>n\<close> like requests in a row on one post add \<open>n\<close> to
  the count that \<open>PostPage.get\<close> displays and \<open>n\<close> to the number of that user's active
  likes of the post; every request ends with the normal redirect, and after the first the
  page shows the button \<open>unlike\<close>.  Nothing looks for a like that is already there.
  The post's id is not 0, so that the handler's read of the post does not raise, and the
  post's id and the two ids of the session are values that a \<open>StringProperty\<close> accepts,
  so that the constructor of Likez does not.
\<close>

theorem repeated_likes_accumulate:
  assumes "only_field ''like1'' r" and "authenticated L r" and "int_str post_id \<noteq> 0"
    and "string_property_ok L post_id" and "session_storable L r"
  shows "like_count post_id (likes L r post_id n s) = like_count post_id s + n
       \<and> active_likes (likez_creator (like_of r post_id)) post_id (likes L r post_id n s)
           = active_likes (likez_creator (like_of r post_id)) post_id s + n
       \<and> snd (PostPage_post L r post_id (likes L r post_id n s)) = Redirect (''/blog/'' @ post_id)
       \<and> (db_get s (KPost, int_str post_id) \<noteq> None \<and> 0 < n \<longrightarrow>
            PostPage_get L r post_id (likes L r post_id n s)
              = Permalink (like_count post_id s + n) ''unlike''
                  (Some (likez_creator (like_of r post_id))) (identify L r))"
proof (intro conjI impI)
  show c: "like_count post_id (likes L r post_id n s) = like_count post_id s + n"
  proof (induction n)
    case 0
    show ?case by (simp add: likes_def)
  next
    case (Suc n)
    then show ?case
      by (simp add: likes_Suc [OF assms] like_count_put_new_like)
  qed
  show "active_likes (likez_creator (like_of r post_id)) post_id (likes L r post_id n s)
           = active_likes (likez_creator (like_of r post_id)) post_id s + n"
  proof (induction n)
    case 0
    show ?case by (simp add: likes_def)
  next
    case (Suc n)
    then show ?case
      by (simp add: likes_Suc [OF assms] active_likes_put_new_like)
  qed
  show "snd (PostPage_post L r post_id (likes L r post_id n s)) = Redirect (''/blog/'' @ post_id)"
    by (simp add: PostPage_post_like [OF assms])
  assume a: "db_get s (KPost, int_str post_id) \<noteq> None \<and> 0 < n"
  have ex: "db_get (likes L r post_id m s) (KPost, int_str post_id) \<noteq> None" for m
  proof (induction m)
    case 0
    from a show ?case by (simp add: likes_def)
  next
    case (Suc m)
    then show ?case
      by (simp only: likes_Suc [OF assms]) (rule db_get_put_new_exists)
  qed
  have d: "0 < m \<Longrightarrow> like_display post_id (Some (likez_creator (like_of r post_id)))
             (likes L r post_id m s) = ''unlike''" for m
  proof (induction m)
    case 0
    then show ?case by simp
  next
    case (Suc m)
    show ?case
      by (simp only: likes_Suc [OF assms]) (rule like_display_put_new_like)
  qed
  from assms(2) have i: "truthy (read_secure_cookie L r ''user_id'')"
    by (simp add: authenticated_def)
  then obtain z where z: "map_of (cookies r) ''user_id'' = Some z"
    by (rule read_secure_cookie_truthy)
  then have lc: "likez_creator (like_of r post_id) = split0 z"
    by (simp add: like_of_def)
  from a have "0 < n" by simp
  then have "like_display post_id (Some (split0 z)) (likes L r post_id n s) = ''unlike''"
    using d [of n] by (simp add: lc)
  then show "PostPage_get L r post_id (likes L r post_id n s)
              = Permalink (like_count post_id s + n) ''unlike''
                  (Some (likez_creator (like_of r post_id))) (identify L r)"
    using ex [of n] by (simp add: PostPage_get_def get_post_nonzero [OF assms(3)] Let_def i z lc c)
qed



lemma db_get_put: "db_get (put k e s) k' = (if k' = k then Some (stamp_modified (clock s) e) else db_get s k')"
  by (simp add: db_get_def put_def AList.update_conv')


lemma only_fieldD:
  assumes "only_field f r"
  shows "get_param r f \<noteq> []"
    and "g \<in> set [''like1'', ''unlike'', ''edit_c'', ''update_c'', ''cancel_u_c'', ''delete_c'',
         ''delete_p'', ''edit_p'', ''comment''] \<Longrightarrow> g \<noteq> f \<Longrightarrow> get_param r g = []"
  using assms unfolding only_field_def list_all_iff by auto

lemma PostPage_post_only_unlike:
  assumes "current_ids L r = Inr (cu, cn)" "only_field ''unlike'' r" "int_str post_id \<noteq> 0"
  shows "PostPage_post L r post_id s = finish post_id (unlike_step r cu (init s)) s"
proof -
  note f = only_fieldD [OF assms(2)]
  show ?thesis
    unfolding PostPage_post_def Let_def assms(1) init_def finish_def get_post_nonzero [OF assms(3)]
    by (cases "unlike_step r cu \<lparr>db = s, have_error = False, delete_post = False, edit_post = False\<rparr>")
       (simp_all add: f(2) like_step_skip edit_c_step_skip update_c_step_skip cancel_u_c_step_skip
        delete_c_step_skip delete_p_step_skip edit_p_step_skip comment_step_skip)
qed


lemma PostPage_post_only_update_c:
  assumes "current_ids L r = Inr (cu, cn)" "only_field ''update_c'' r" "int_str post_id \<noteq> 0"
  shows "PostPage_post L r post_id s = finish post_id (update_c_step L r (init s)) s"
proof -
  note f = only_fieldD [OF assms(2)]
  show ?thesis
    unfolding PostPage_post_def Let_def assms(1) init_def finish_def get_post_nonzero [OF assms(3)]
    by (cases "update_c_step L r \<lparr>db = s, have_error = False, delete_post = False, edit_post = False\<rparr>")
       (simp_all add: f(2) like_step_skip unlike_step_skip edit_c_step_skip cancel_u_c_step_skip
        delete_c_step_skip delete_p_step_skip edit_p_step_skip comment_step_skip)
qed

lemma PostPage_post_only_cancel_u_c:
  assumes "current_ids L r = Inr (cu, cn)" "only_field ''cancel_u_c'' r" "int_str post_id \<noteq> 0"
  shows "PostPage_post L r post_id s = finish post_id (cancel_u_c_step L r (init s)) s"
proof -
  note f = only_fieldD [OF assms(2)]
  show ?thesis
    unfolding PostPage_post_def Let_def assms(1) init_def finish_def get_post_nonzero [OF assms(3)]
    by (cases "cancel_u_c_step L r \<lparr>db = s, have_error = False, delete_post = False, edit_post = False\<rparr>")
       (simp_all add: f(2) like_step_skip unlike_step_skip edit_c_step_skip update_c_step_skip
        delete_c_step_skip delete_p_step_skip edit_p_step_skip comment_step_skip)
qed


lemma PostPage_post_only_delete_p:
  assumes "current_ids L r = Inr (cu, cn)" "only_field ''delete_p'' r" "int_str post_id \<noteq> 0"
  shows "PostPage_post L r post_id s = finish post_id (delete_p_step L r (init s)) s"
proof -
  note f = only_fieldD [OF assms(2)]
  show ?thesis
    unfolding PostPage_post_def Let_def assms(1) init_def finish_def get_post_nonzero [OF assms(3)]
    by (cases "delete_p_step L r \<lparr>db = s, have_error = False, delete_post = False, edit_post = False\<rparr>")
       (simp_all add: f(2) like_step_skip unlike_step_skip edit_c_step_skip update_c_step_skip
        cancel_u_c_step_skip delete_c_step_skip edit_p_step_skip comment_step_skip)
qed


lemma only_update_c:
  assumes "current_ids L r = Inr (cu, cn)" "int_str post_id \<noteq> 0" "only_field ''update_c'' r"
    "key_decode L (get_param r ''update_c'') = Some k" "db_get s k = Some e"
    "set_content (get_param r ''updated_comment'') e = Inr e'"
  shows "PostPage_post L r post_id s = (put k (set_mod False e') s, Redirect (''/blog/'' @ post_id))"
  unfolding PostPage_post_only_update_c [OF assms(1,3,2)]
  using only_fieldD(1) [OF assms(3)] assms(4,5,6)
  by (simp add: finish_def update_c_step_def init_def terminal_redirect_def Let_def)

lemma only_cancel_u_c:
  assumes "current_ids L r = Inr (cu, cn)" "int_str post_id \<noteq> 0" "only_field ''cancel_u_c'' r"
    "key_decode L (get_param r ''cancel_u_c'') = Some k" "db_get s k = Some e"
  shows "PostPage_post L r post_id s = (put k (set_mod False e) s, Redirect (''/blog/'' @ post_id))"
  unfolding PostPage_post_only_cancel_u_c [OF assms(1,3,2)]
  using only_fieldD(1) [OF assms(3)] assms(4,5)
  by (simp add: finish_def cancel_u_c_step_def init_def terminal_redirect_def)




text \<open>
  Claim C8, as the code has it.  On a post whose id is not 0, after \<open>update_c\<close> with a
  non-empty text the comment has the new content and \<open>mod = False\<close>; after \<open>cancel_u_c\<close>
  it has \<open>mod = False\<close> and its content.  In both cases \<open>put\<close> stamps \<open>last_modified\<close>
  (declared \<open>auto_now\<close>) with the time of the write; every other field of the comment,
  and every other entity, is unchanged.
\<close>

theorem update_and_cancel_comment:
  assumes "current_ids L r = Inr (cu, cn)" and "int_str post_id \<noteq> 0"
  shows "(only_field ''update_c'' r \<and> key_decode L (get_param r ''update_c'') = Some k
            \<and> db_get s k = Some (Comment c) \<and> get_param r ''updated_comment'' \<noteq> []
          \<longrightarrow> snd (PostPage_post L r post_id s) = Redirect (''/blog/'' @ post_id)
              \<and> db_get (fst (PostPage_post L r post_id s)) k
                  = Some (Comment (c\<lparr>comment_content := get_param r ''updated_comment'',
                                     comment_mod := Some False,
                                     comment_last_modified := clock s\<rparr>))
              \<and> (\<forall>k'. k' \<noteq> k \<longrightarrow>
                    db_get (fst (PostPage_post L r post_id s)) k' = db_get s k'))
       \<and> (only_field ''cancel_u_c'' r \<and> key_decode L (get_param r ''cancel_u_c'') = Some k
            \<and> db_get s k = Some (Comment c)
          \<longrightarrow> snd (PostPage_post L r post_id s) = Redirect (''/blog/'' @ post_id)
              \<and> db_get (fst (PostPage_post L r post_id s)) k
                  = Some (Comment (c\<lparr>comment_mod := Some False,
                                     comment_last_modified := clock s\<rparr>))
              \<and> (\<forall>k'. k' \<noteq> k \<longrightarrow>
                    db_get (fst (PostPage_post L r post_id s)) k' = db_get s k'))"
proof (intro conjI impI allI)
  assume a: "only_field ''update_c'' r \<and> key_decode L (get_param r ''update_c'') = Some k
            \<and> db_get s k = Some (Comment c) \<and> get_param r ''updated_comment'' \<noteq> []"
  then have "get_param r ''updated_comment'' \<noteq> []" by simp
  then have sc: "set_content (get_param r ''updated_comment'') (Comment c)
      = Inr (Comment (c\<lparr>comment_content := get_param r ''updated_comment''\<rparr>))"
    by simp
  from a have p: "PostPage_post L r post_id s
      = (put k (set_mod False (Comment (c\<lparr>comment_content := get_param r ''updated_comment''\<rparr>))) s,
         Redirect (''/blog/'' @ post_id))"
    by (intro only_update_c [OF assms _ _ _ sc]) simp_all
  show "snd (PostPage_post L r post_id s) = Redirect (''/blog/'' @ post_id)"
    by (simp add: p)
  show "db_get (fst (PostPage_post L r post_id s)) k
          = Some (Comment (c\<lparr>comment_content := get_param r ''updated_comment'',
                             comment_mod := Some False,
                             comment_last_modified := clock s\<rparr>))"
    by (simp add: p db_get_put)
  fix k' assume "k' \<noteq> k"
  then show "db_get (fst (PostPage_post L r post_id s)) k' = db_get s k'"
    by (simp add: p db_get_put)
next
  assume a: "only_field ''cancel_u_c'' r \<and> key_decode L (get_param r ''cancel_u_c'') = Some k
            \<and> db_get s k = Some (Comment c)"
  then have p: "PostPage_post L r post_id s
      = (put k (set_mod False (Comment c)) s, Redirect (''/blog/'' @ post_id))"
    by (intro only_cancel_u_c [OF assms]) simp_all
  show "snd (PostPage_post L r post_id s) = Redirect (''/blog/'' @ post_id)"
    by (simp add: p)
  show "db_get (fst (PostPage_post L r post_id s)) k
          = Some (Comment (c\<lparr>comment_mod := Some False, comment_last_modified := clock s\<rparr>))"
    by (simp add: p db_get_put)
  fix k' assume "k' \<noteq> k"
  then show "db_get (fst (PostPage_post L r post_id s)) k' = db_get s k'"
    by (simp add: p db_get_put)
qed




















lemma make_secure_val_with_keys [simp]:
  "make_secure_val (with_keys L ks) v = make_secure_val L v"
  by (simp add: with_keys_def make_secure_val_def hash_str_def)

lemma key_decode_with_keys [simp]: "key_decode (with_keys L ks) = map_of ks"
  by (simp add: with_keys_def)

lemma make_secure_val_with_limit [simp]:
  "make_secure_val (with_limit L n) v = make_secure_val L v"
  by (simp add: with_limit_def make_secure_val_def hash_str_def)

lemma key_decode_with_limit [simp]: "key_decode (with_limit L n) = key_decode L"
  by (simp add: with_limit_def)

lemma string_max_with_limit [simp]: "string_max (with_limit L n) = n"
  by (simp add: with_limit_def)

lemma check_secure_val_minted:
  "CHR ''|'' \<notin> set v \<Longrightarrow> check_secure_val L (Some (make_secure_val L v)) = Some v"
proof -
  assume "CHR ''|'' \<notin> set v"
  then have e: "split0 v = v" by (simp add: split0_id_iff)
  have "make_secure_val L v = make_secure_val L (split0 v) \<and> v = split0 v"
    unfolding e by (simp (no_asm))
  then show ?thesis
    unfolding check_secure_val_Some_iff make_secure_val_split0 .
qed

lemma make_secure_val_nonempty: "make_secure_val L v \<noteq> []"
  by (simp add: make_secure_val_def)

lemma read_secure_cookie_session:
  assumes "cookies r = session L name uid" "CHR ''|'' \<notin> set name" "CHR ''|'' \<notin> set uid"
  shows "read_secure_cookie L r ''user'' = Some name"
    and "read_secure_cookie L r ''user_id'' = Some uid"
  using assms
  by (simp_all add: read_secure_cookie_def session_def Let_def check_secure_val_minted
        make_secure_val_nonempty)

lemma session_ids:
  assumes "cookies r = session L name uid" "CHR ''|'' \<notin> set name" "CHR ''|'' \<notin> set uid"
    "name \<noteq> []" "uid \<noteq> []"
  shows "authenticated L r" and "current_ids L r = Inr (Some uid, Some name)"
    and "identify L r = Some name"
proof -
  note rd = read_secure_cookie_session [OF assms(1-3)]
  from assms(2,3) have sp: "split0 name = name" "split0 uid = uid"
    by (simp_all add: split0_id_iff)
  show "authenticated L r" using assms(4,5) by (simp add: authenticated_def rd)
  show "current_ids L r = Inr (Some uid, Some name)"
    using assms(5) by (simp add: current_ids_def rd assms(1) session_def
        make_secure_val_split0 sp)
  show "identify L r = Some name"
    using assms(4) by (simp add: identify_def rd sp)
qed

lemma no_session:
  assumes "cookies r = []"
  shows "\<not> truthy (read_secure_cookie L r ''user'')"
    and "\<not> truthy (read_secure_cookie L r ''user_id'')"
  using assms by (simp_all add: read_secure_cookie_def)

text \<open>
  Claim C2 does not hold of the code.  The docstring of \<open>PostPage.post\<close> says that the
  user's id is compared with the creator's, the handler compares nothing: bob, signed in
  with id 2, deletes the post that user 1 created, and a request without any cookie
  overwrites its content through \<open>EditPage.post\<close>.
\<close>

theorem stranger_deletes_post:
  "\<forall>L. PostPage_post (with_keys L blog_keys)
          \<lparr>params = [(''delete_p'', ''pk'')], cookies = session L ''bob'' ''2''\<rparr> ''5'' blog_store
        = (blog_store\<lparr>entities := [((KComment, 6), Comment alice_comment)]\<rparr>, Redirect ''/blog'')
      \<and> db_get blog_store (KPost, 5) = Some (Post alice_post)
      \<and> post_creator alice_post = Some ''1''
      \<and> current_ids (with_keys L blog_keys)
          \<lparr>params = [(''delete_p'', ''pk'')], cookies = session L ''bob'' ''2''\<rparr>
        = Inr (Some ''2'', Some ''bob'')
      \<and> EditPage_post (with_keys L blog_keys)
          \<lparr>params = [(''post_update'', ''defaced'')], cookies = []\<rparr> ''5'' blog_store
        = (blog_store\<lparr>entities :=
             [((KPost, 5), Post (alice_post\<lparr>post_content := ''defaced'', post_last_modified := 9\<rparr>)),
              ((KComment, 6), Comment alice_comment)], clock := 10\<rparr>,
           Redirect ''/blog/5'')"
proof (intro allI conjI)
  fix L
  let ?L = "with_keys L blog_keys"
  let ?r = "\<lparr>params = [(''delete_p'', ''pk'')], cookies = session L ''bob'' ''2''\<rparr>"
  have c: "cookies ?r = session ?L ''bob'' ''2''" by (simp add: session_def)
  have ids: "current_ids ?L ?r = Inr (Some ''2'', Some ''bob'')"
    by (rule session_ids(2) [OF c]) simp_all
  then show "current_ids ?L ?r = Inr (Some ''2'', Some ''bob'')" .
  have o: "only_field ''delete_p'' ?r"
    by (simp add: only_field_def get_param_def)
  have five: "int_str ''5'' \<noteq> 0" by (simp add: int_str_def)
  show "PostPage_post ?L ?r ''5'' blog_store
        = (blog_store\<lparr>entities := [((KComment, 6), Comment alice_comment)]\<rparr>, Redirect ''/blog'')"
    unfolding PostPage_post_only_delete_p [OF ids o five]
    by (simp add: finish_def delete_p_step_def init_def terminal_redirect_def get_param_def
        blog_keys_def db_delete_def blog_store_def)
  show "db_get blog_store (KPost, 5) = Some (Post alice_post)"
    by (simp add: db_get_def blog_store_def)
  show "post_creator alice_post = Some ''1''"
    by (simp add: alice_post_def)
  show "EditPage_post ?L \<lparr>params = [(''post_update'', ''defaced'')], cookies = []\<rparr> ''5'' blog_store
        = (blog_store\<lparr>entities :=
             [((KPost, 5), Post (alice_post\<lparr>post_content := ''defaced'', post_last_modified := 9\<rparr>)),
              ((KComment, 6), Comment alice_comment)], clock := 10\<rparr>,
           Redirect ''/blog/5'')"
    by (simp add: EditPage_post_def get_post_def Let_def int_str_def get_param_def db_get_def
        blog_store_def put_def)
qed

text \<open>
  Claim C3 does not hold of the code.  The scan of the unlike action tests the creator and
  \<open>does_like\<close> but not \<open>post_id\<close> (the scans of \<open>PostPage.get\<close> test it): bob, who likes
  posts 4 and 5, unlikes post 5, and his like of post 4 is deleted; the count of post 5
  stays 1, the count of post 4 drops to 0.
\<close>

theorem unlike_removes_like_of_other_post:
  "\<forall>L. PostPage_post L \<lparr>params = [(''unlike'', ''unlike'')], cookies = session L ''bob'' ''2''\<rparr>
          ''5'' likes_store
        = (likes_store\<lparr>entities := [((KLikez, 2), Likez (bob_like ''5'' 2))]\<rparr>,
           Redirect ''/blog/5'')
      \<and> db_get likes_store (KLikez, 1) = Some (Likez (bob_like ''4'' 1))
      \<and> likez_post_id (bob_like ''4'' 1) = ''4''
      \<and> like_count ''5'' likes_store = 1
      \<and> like_count ''5'' (likes_store\<lparr>entities := [((KLikez, 2), Likez (bob_like ''5'' 2))]\<rparr>) = 1
      \<and> like_count ''4'' likes_store = 1
      \<and> like_count ''4'' (likes_store\<lparr>entities := [((KLikez, 2), Likez (bob_like ''5'' 2))]\<rparr>) = 0"
proof (intro allI conjI)
  fix L
  let ?r = "\<lparr>params = [(''unlike'', ''unlike'')], cookies = session L ''bob'' ''2''\<rparr>"
  have c: "cookies ?r = session L ''bob'' ''2''" by simp
  have ids: "current_ids L ?r = Inr (Some ''2'', Some ''bob'')"
    by (rule session_ids(2) [OF c]) simp_all
  have o: "only_field ''unlike'' ?r"
    by (simp add: only_field_def get_param_def)
  have five: "int_str ''5'' \<noteq> 0" by (simp add: int_str_def)
  have q: "likez_query likes_store
             = [((KLikez, 2), bob_like ''5'' 2), ((KLikez, 1), bob_like ''4'' 1)]"
    by (simp add: likez_query_def likes_store_def List.map_filter_def bob_like_def)
  show "PostPage_post L ?r ''5'' likes_store
        = (likes_store\<lparr>entities := [((KLikez, 2), Likez (bob_like ''5'' 2))]\<rparr>,
           Redirect ''/blog/5'')"
    unfolding PostPage_post_only_unlike [OF ids o five]
    by (simp add: finish_def unlike_step_def init_def terminal_redirect_def get_param_def q
        Let_def) (simp add: bob_like_def db_delete_def likes_store_def)
  show "db_get likes_store (KLikez, 1) = Some (Likez (bob_like ''4'' 1))"
    by (simp add: db_get_def likes_store_def)
  show "likez_post_id (bob_like ''4'' 1) = ''4''"
    by (simp add: bob_like_def)
  show "like_count ''5'' likes_store = 1"
    by (simp add: like_count_def q) (simp add: bob_like_def)
  show "like_count ''4'' likes_store = 1"
    by (simp add: like_count_def q) (simp add: bob_like_def)
  have q': "likez_query (likes_store\<lparr>entities := [((KLikez, 2), Likez (bob_like ''5'' 2))]\<rparr>)
             = [((KLikez, 2), bob_like ''5'' 2)]"
    by (simp add: likez_query_def List.map_filter_def)
  show "like_count ''5'' (likes_store\<lparr>entities := [((KLikez, 2), Likez (bob_like ''5'' 2))]\<rparr>) = 1"
    by (simp add: like_count_def q') (simp add: bob_like_def)
  show "like_count ''4'' (likes_store\<lparr>entities := [((KLikez, 2), Likez (bob_like ''5'' 2))]\<rparr>) = 0"
    by (simp add: like_count_def q') (simp add: bob_like_def)
qed

section \<open>Examples\<close>














lemma int_str_five: "int_str ''5'' \<noteq> 0"
  by (simp add: int_str_def)

lemma anonymous_ids: "cookies r = [] \<Longrightarrow> current_ids L r = Inr (None, None)"
  by (rule current_ids_no_cookie) (rule no_session)

lemma anonymous_identify: "cookies r = [] \<Longrightarrow> identify L r = None"
  by (rule identify_no_cookie) (rule no_session)

text \<open>
  Bob, signed in, likes post 5 twice: the page counts 2 and offers \<open>unlike\<close>.
\<close>

theorem repeated_likes_accumulate_witness:
  "\<forall>L. only_field ''like1'' \<lparr>params = [(''like1'', ''like'')], cookies = session L ''bob'' ''2''\<rparr>
      \<and> authenticated (with_limit L 500)
           \<lparr>params = [(''like1'', ''like'')], cookies = session L ''bob'' ''2''\<rparr>
      \<and> int_str ''5'' \<noteq> 0
      \<and> string_property_ok (with_limit L 500) ''5''
      \<and> session_storable (with_limit L 500)
           \<lparr>params = [(''like1'', ''like'')], cookies = session L ''bob'' ''2''\<rparr>
      \<and> like_count ''5'' blog_store = 0
      \<and> like_count ''5''
           (likes (with_limit L 500)
              \<lparr>params = [(''like1'', ''like'')], cookies = session L ''bob'' ''2''\<rparr> ''5'' 2
              blog_store) = 2
      \<and> active_likes ''2'' ''5''
           (likes (with_limit L 500)
              \<lparr>params = [(''like1'', ''like'')], cookies = session L ''bob'' ''2''\<rparr> ''5'' 2
              blog_store) = 2
      \<and> PostPage_get (with_limit L 500)
           \<lparr>params = [(''like1'', ''like'')], cookies = session L ''bob'' ''2''\<rparr> ''5''
           (likes (with_limit L 500)
              \<lparr>params = [(''like1'', ''like'')], cookies = session L ''bob'' ''2''\<rparr> ''5'' 2
              blog_store)
         = Permalink 2 ''unlike'' (Some ''2'') (Some ''bob'')"
proof (intro allI)
  fix L
  let ?L = "with_limit L 500"
  let ?r = "\<lparr>params = [(''like1'', ''like'')], cookies = session L ''bob'' ''2''\<rparr>"
  have c: "cookies ?r = session ?L ''bob'' ''2''" by (simp add: session_def)
  have o: "only_field ''like1'' ?r" by (simp add: only_field_def get_param_def)
  have a: "authenticated ?L ?r" by (rule session_ids(1) [OF c]) simp_all
  have ids: "current_ids ?L ?r = Inr (Some ''2'', Some ''bob'')"
    by (rule session_ids(2) [OF c]) simp_all
  have i: "identify ?L ?r = Some ''bob''" by (rule session_ids(3) [OF c]) simp_all
  note p = int_str_five
  have sp: "string_property_ok ?L ''5''" by (simp add: string_property_ok_def)
  have ss: "session_storable ?L ?r"
    by (simp add: session_storable_def ids optional_string_ok_def string_property_ok_def)
  have z: "like_count ''5'' blog_store = 0"
    by (simp add: like_count_alt blog_store_def likez_of_def List.map_filter_def)
  have z': "active_likes ''2'' ''5'' blog_store = 0"
    by (simp add: active_likes_def blog_store_def likez_of_def List.map_filter_def)
  have cr: "likez_creator (like_of ?r ''5'') = ''2''"
    by (simp add: like_of_def session_def make_secure_val_split0) (simp add: split0_def)
  have g: "db_get blog_store (KPost, int_str ''5'') \<noteq> None"
    by (simp add: db_get_def blog_store_def int_str_def)
  from repeated_likes_accumulate [OF o a p sp ss, of 2 blog_store] o a p sp ss z z' g
  show "only_field ''like1'' ?r \<and> authenticated ?L ?r \<and> int_str ''5'' \<noteq> 0
      \<and> string_property_ok ?L ''5'' \<and> session_storable ?L ?r
      \<and> like_count ''5'' blog_store = 0
      \<and> like_count ''5'' (likes ?L ?r ''5'' 2 blog_store) = 2
      \<and> active_likes ''2'' ''5'' (likes ?L ?r ''5'' 2 blog_store) = 2
      \<and> PostPage_get ?L ?r ''5'' (likes ?L ?r ''5'' 2 blog_store)
         = Permalink 2 ''unlike'' (Some ''2'') (Some ''bob'')"
    by (simp add: cr i)
qed

text \<open>
  Updating and cancelling on alice's comment, which was last modified at time 1 and is
  written at time 9.
\<close>

theorem update_and_cancel_comment_witness:
  "\<forall>L. int_str ''5'' \<noteq> 0
      \<and> db_get (fst (PostPage_post (with_keys L blog_keys)
            \<lparr>params = [(''update_c'', ''ck''), (''updated_comment'', ''second'')], cookies = []\<rparr>
            ''5'' blog_store)) (KComment, 6)
         = Some (Comment (alice_comment\<lparr>comment_content := ''second'', comment_mod := Some False,
                   comment_last_modified := 9\<rparr>))
      \<and> db_get (fst (PostPage_post (with_keys L blog_keys)
            \<lparr>params = [(''cancel_u_c'', ''ck'')], cookies = []\<rparr> ''5'' blog_store)) (KComment, 6)
         = Some (Comment (alice_comment\<lparr>comment_mod := Some False, comment_last_modified := 9\<rparr>))
      \<and> db_get (fst (PostPage_post (with_keys L blog_keys)
            \<lparr>params = [(''cancel_u_c'', ''ck'')], cookies = []\<rparr> ''5'' blog_store)) (KPost, 5)
         = Some (Post alice_post)"
proof (intro allI)
  fix L
  let ?L = "with_keys L blog_keys"
  let ?u = "\<lparr>params = [(''update_c'', ''ck''), (''updated_comment'', ''second'')], cookies = []\<rparr>"
  let ?c = "\<lparr>params = [(''cancel_u_c'', ''ck'')], cookies = []\<rparr>"
  have iu: "current_ids ?L ?u = Inr (None, None)" by (rule anonymous_ids) simp
  have ic: "current_ids ?L ?c = Inr (None, None)" by (rule anonymous_ids) simp
  have ou: "only_field ''update_c'' ?u" by (simp add: only_field_def get_param_def)
  have oc: "only_field ''cancel_u_c'' ?c" by (simp add: only_field_def get_param_def)
  have ku: "key_decode ?L (get_param ?u ''update_c'') = Some (KComment, 6)"
    by (simp add: get_param_def blog_keys_def)
  have kc: "key_decode ?L (get_param ?c ''cancel_u_c'') = Some (KComment, 6)"
    by (simp add: get_param_def blog_keys_def)
  have g: "db_get blog_store (KComment, 6) = Some (Comment alice_comment)"
    by (simp add: db_get_def blog_store_def)
  have gp: "db_get blog_store (KPost, 5) = Some (Post alice_post)"
    by (simp add: db_get_def blog_store_def)
  have t: "get_param ?u ''updated_comment'' = ''second''" by (simp add: get_param_def)
  have cl: "clock blog_store = 9" by (simp add: blog_store_def)
  from update_and_cancel_comment [OF iu int_str_five, of "(KComment, 6)" blog_store alice_comment]
    update_and_cancel_comment [OF ic int_str_five, of "(KComment, 6)" blog_store alice_comment]
    ou oc ku kc g gp t cl int_str_five
  show "int_str ''5'' \<noteq> 0
      \<and> db_get (fst (PostPage_post ?L ?u ''5'' blog_store)) (KComment, 6)
         = Some (Comment (alice_comment\<lparr>comment_content := ''second'', comment_mod := Some False,
                   comment_last_modified := 9\<rparr>))
      \<and> db_get (fst (PostPage_post ?L ?c ''5'' blog_store)) (KComment, 6)
         = Some (Comment (alice_comment\<lparr>comment_mod := Some False, comment_last_modified := 9\<rparr>))
      \<and> db_get (fst (PostPage_post ?L ?c ''5'' blog_store)) (KPost, 5) = Some (Post alice_post)"
    by simp
qed

text \<open>
  Claim C8 as stated fails on \<open>last_modified\<close>: after \<open>cancel_u_c\<close> the comment is not
  the old one with \<open>mod\<close> cleared, its \<open>last_modified\<close> has moved from 1 to 9.  It also
  fails for the empty text: \<open>update_c\<close> without an \<open>updated_comment\<close> raises, and the
  comment keeps its content and its \<open>mod\<close>.
\<close>

theorem cancel_u_c_stamps_last_modified:
  "\<forall>L. db_get (fst (PostPage_post (with_keys L blog_keys)
            \<lparr>params = [(''cancel_u_c'', ''ck'')], cookies = []\<rparr> ''5'' blog_store)) (KComment, 6)
         = Some (Comment (alice_comment\<lparr>comment_mod := Some False, comment_last_modified := 9\<rparr>))
      \<and> db_get (fst (PostPage_post (with_keys L blog_keys)
            \<lparr>params = [(''cancel_u_c'', ''ck'')], cookies = []\<rparr> ''5'' blog_store)) (KComment, 6)
         \<noteq> Some (Comment (alice_comment\<lparr>comment_mod := Some False\<rparr>))
      \<and> db_get blog_store (KComment, 6) = Some (Comment alice_comment)
      \<and> comment_last_modified alice_comment = 1
      \<and> PostPage_post (with_keys L blog_keys)
            \<lparr>params = [(''update_c'', ''ck'')], cookies = []\<rparr> ''5'' blog_store
         = (blog_store, ServerError BadValueError)
      \<and> comment_mod alice_comment = Some True"
proof (intro allI)
  fix L
  let ?L = "with_keys L blog_keys"
  let ?c = "\<lparr>params = [(''cancel_u_c'', ''ck'')], cookies = []\<rparr>"
  let ?u = "\<lparr>params = [(''update_c'', ''ck'')], cookies = []\<rparr>"
  have ic: "current_ids ?L ?c = Inr (None, None)" by (rule anonymous_ids) simp
  have iu: "current_ids ?L ?u = Inr (None, None)" by (rule anonymous_ids) simp
  have oc: "only_field ''cancel_u_c'' ?c" by (simp add: only_field_def get_param_def)
  have ou: "only_field ''update_c'' ?u" by (simp add: only_field_def get_param_def)
  have g: "db_get blog_store (KComment, 6) = Some (Comment alice_comment)"
    by (simp add: db_get_def blog_store_def)
  have p: "PostPage_post ?L ?c ''5'' blog_store
      = (put (KComment, 6) (Comment (alice_comment\<lparr>comment_mod := Some False\<rparr>)) blog_store,
         Redirect ''/blog/5'')"
    unfolding PostPage_post_only_cancel_u_c [OF ic oc int_str_five]
    by (simp add: finish_def cancel_u_c_step_def init_def terminal_redirect_def get_param_def
        blog_keys_def g)
  have r: "db_get (fst (PostPage_post ?L ?c ''5'' blog_store)) (KComment, 6)
         = Some (Comment (alice_comment\<lparr>comment_mod := Some False, comment_last_modified := 9\<rparr>))"
    by (simp add: p db_get_put) (simp add: blog_store_def)
  have n: "comment_last_modified alice_comment = 1" by (simp add: alice_comment_def)
  have m: "comment_mod alice_comment = Some True" by (simp add: alice_comment_def)
  have d: "alice_comment\<lparr>comment_mod := Some False, comment_last_modified := 9\<rparr>
          \<noteq> alice_comment\<lparr>comment_mod := Some False\<rparr>"
    by (simp add: alice_comment_def)
  have e: "PostPage_post ?L ?u ''5'' blog_store = (blog_store, ServerError BadValueError)"
    unfolding PostPage_post_only_update_c [OF iu ou int_str_five]
    by (simp add: finish_def update_c_step_def init_def get_param_def blog_keys_def g Let_def)
  from r g n d e m show "db_get (fst (PostPage_post ?L ?c ''5'' blog_store)) (KComment, 6)
         = Some (Comment (alice_comment\<lparr>comment_mod := Some False, comment_last_modified := 9\<rparr>))
      \<and> db_get (fst (PostPage_post ?L ?c ''5'' blog_store)) (KComment, 6)
         \<noteq> Some (Comment (alice_comment\<lparr>comment_mod := Some False\<rparr>))
      \<and> db_get blog_store (KComment, 6) = Some (Comment alice_comment)
      \<and> comment_last_modified alice_comment = 1
      \<and> PostPage_post ?L ?u ''5'' blog_store = (blog_store, ServerError BadValueError)
      \<and> comment_mod alice_comment = Some True"
    by simp
qed










end
